theory Spec2Isabelle
  imports Main
begin

section \<open>Python values, exceptions and strings\<close>

text \<open>
  The handlers of \<^verbatim>\<open>timetracker/utils/calendar_utils.py\<close> and
  \<^verbatim>\<open>timetracker/views.py\<close> raise and catch exceptions; every function
  that can raise returns \<open>exn + 'a\<close>, with \<open>Inl\<close> the raised exception.
  \<open>IntegrityError\<close> carries the database error code (\<open>error[0]\<close> in the source)
  and its message; \<open>Exception e\<close> is \<^verbatim>\<open>Exception(error)\<close>, a new exception made
  from a caught one.
\<close>

datatype exn =
    Http404
  | ValueError
  | TypeError
  | AttributeError
  | KeyError
  | DoesNotExist
  | MultipleObjectsReturned
  | ValidationError
  | OverflowError
  | IntegrityError int string
  | Exception exn

text \<open>A value read with \<^verbatim>\<open>request.POST.get(key, None)\<close>: a string or \<^verbatim>\<open>None\<close>.\<close>

type_synonym pystr = "string option"

text \<open>
  Django hands the handlers unicode strings; a string is the list of its code points,
  which are below 256 here. The white space of unicode among them: the six ASCII
  characters, the separators 0x1C to 0x1F, NEL and the no-break space.
\<close>

definition is_space :: "char \<Rightarrow> bool" where
  "is_space c = (c = CHR '' '' \<or> c = CHR 0x09 \<or> c = CHR 0x0A \<or> c = CHR 0x0B
                 \<or> c = CHR 0x0C \<or> c = CHR 0x0D \<or> c = CHR 0x1C \<or> c = CHR 0x1D
                 \<or> c = CHR 0x1E \<or> c = CHR 0x1F \<or> c = CHR 0x85 \<or> c = CHR 0xA0)"

definition is_digit :: "char \<Rightarrow> bool" where
  "is_digit c = (48 \<le> (of_char c :: nat) \<and> (of_char c :: nat) \<le> 57)"

definition digit_val :: "char \<Rightarrow> nat" where
  "digit_val c = of_char c - 48"

definition digits_val :: "string \<Rightarrow> nat" where
  "digits_val s = foldl (\<lambda>a c. 10 * a + digit_val c) 0 s"

definition strip :: "string \<Rightarrow> string" where
  "strip s = rev (dropWhile is_space (rev (dropWhile is_space s)))"

text \<open>
  Python 2's \<^verbatim>\<open>int(s)\<close> on a string: surrounding white space is dropped, one
  sign is allowed, and what is left must be a non-empty run of decimal digits (below
  code point 256 these are 0 to 9); anything else raises \<^verbatim>\<open>ValueError\<close>.
\<close>

definition py_int :: "string \<Rightarrow> exn + int" where
  "py_int s =
     (let t = strip s;
          neg = (t \<noteq> [] \<and> hd t = CHR ''-'');
          u = (if t \<noteq> [] \<and> (hd t = CHR ''-'' \<or> hd t = CHR ''+'') then tl t else t)
      in if u = [] \<or> \<not> list_all is_digit u then Inl ValueError
         else Inr (if neg then - int (digits_val u) else int (digits_val u)))"

text \<open>\<^verbatim>\<open>s.split(sep)\<close> with a one-character separator: never empty, \<open>''''\<close> gives \<open>['''']\<close>.\<close>

fun split_on :: "char \<Rightarrow> string \<Rightarrow> string list" where
  "split_on sep [] = [[]]"
| "split_on sep (c # cs) =
     (if c = sep then [] # split_on sep cs
      else (case split_on sep cs of [] \<Rightarrow> [[c]] | w # ws \<Rightarrow> (c # w) # ws))"

text \<open>\<^verbatim>\<open>map(f, xs)\<close> in Python 2 builds the whole list; the first exception ends it.\<close>

fun map_exn :: "('a \<Rightarrow> exn + 'b) \<Rightarrow> 'a list \<Rightarrow> exn + 'b list" where
  "map_exn f [] = Inr []"
| "map_exn f (x # xs) =
     (case f x of Inl e \<Rightarrow> Inl e
      | Inr y \<Rightarrow> (case map_exn f xs of Inl e \<Rightarrow> Inl e | Inr ys \<Rightarrow> Inr (y # ys)))"

section \<open>Times of day\<close>

text \<open>
  \<^verbatim>\<open>datetime.time(hour, minute)\<close>: the arguments are read as C integers, an
  \<^verbatim>\<open>OverflowError\<close> when one does not fit into 32 bits, and then checked, a
  \<^verbatim>\<open>ValueError\<close> outside 0..23 and 0..59.
\<close>

definition c_int :: "int \<Rightarrow> bool" where
  "c_int n = (- 2147483648 \<le> n \<and> n \<le> 2147483647)"

record pytime =
  hour :: int
  minute :: int
  second :: int

definition datetime_time :: "int \<Rightarrow> int \<Rightarrow> exn + pytime" where
  "datetime_time h m =
     (if \<not> (c_int h \<and> c_int m) then Inl OverflowError
      else if 0 \<le> h \<and> h < 24 \<and> 0 \<le> m \<and> m < 60
      then Inr \<lparr>hour = h, minute = m, second = 0\<rparr> else Inl ValueError)"

definition time_lt :: "pytime \<Rightarrow> pytime \<Rightarrow> bool" where
  "time_lt a b =
     (hour a < hour b \<or> (hour a = hour b \<and>
       (minute a < minute b \<or> (minute a = minute b \<and> second a < second b))))"

text \<open>
  \<^verbatim>\<open>parse_time(timestring)\<close> is \<^verbatim>\<open>map(int, timestring.split(":"))\<close>; on
  \<^verbatim>\<open>None\<close> the attribute lookup \<^verbatim>\<open>.split\<close> raises.
\<close>

definition parse_time :: "pystr \<Rightarrow> exn + int list" where
  "parse_time timestring =
     (case timestring of None \<Rightarrow> Inl AttributeError
      | Some s \<Rightarrow> map_exn py_int (split_on CHR '':'' s))"

text \<open>
  The tuple assignment \<^verbatim>\<open>shour, sminute = parse_time(start)\<close> raises
  \<^verbatim>\<open>ValueError\<close> unless the list has exactly two elements.
\<close>

definition unpack2 :: "exn + int list \<Rightarrow> exn + (int \<times> int)" where
  "unpack2 r = (case r of Inl e \<Rightarrow> Inl e
                | Inr xs \<Rightarrow> (case xs of [a, b] \<Rightarrow> Inr (a, b) | _ \<Rightarrow> Inl ValueError))"

definition validate_time :: "pystr \<Rightarrow> pystr \<Rightarrow> exn + bool" where
  "validate_time start end' =
     (case unpack2 (parse_time start) of Inl e \<Rightarrow> Inl e
      | Inr (shour, sminute) \<Rightarrow>
     (case unpack2 (parse_time end') of Inl e \<Rightarrow> Inl e
      | Inr (ehour, eminute) \<Rightarrow>
     (case datetime_time shour sminute of Inl e \<Rightarrow> Inl e
      | Inr s \<Rightarrow>
     (case datetime_time ehour eminute of Inl e \<Rightarrow> Inl e
      | Inr e \<Rightarrow> Inr (time_lt s e)))))"

subsection \<open>Well-formed time strings\<close>

text \<open>
  A well-formed time string is \<open>H:M\<close> with two non-empty digit fields, the hour
  below 24 and the minute below 60; \<open>minutes_of\<close> is its distance from midnight.
\<close>

definition wf_field :: "string \<Rightarrow> bool" where
  "wf_field s = (s \<noteq> [] \<and> list_all is_digit s)"

definition wf_time :: "string \<Rightarrow> bool" where
  "wf_time s =
     (case split_on CHR '':'' s of
        [h, m] \<Rightarrow> wf_field h \<and> wf_field m \<and> digits_val h < 24 \<and> digits_val m < 60
      | _ \<Rightarrow> False)"

definition minutes_of :: "string \<Rightarrow> nat" where
  "minutes_of s =
     (case split_on CHR '':'' s of
        [h, m] \<Rightarrow> 60 * digits_val h + digits_val m
      | _ \<Rightarrow> 0)"


section \<open>Rendering numbers and padding\<close>

definition digit_char :: "nat \<Rightarrow> char" where
  "digit_char n = char_of (48 + n)"

text \<open>\<^verbatim>\<open>str(n)\<close> of a Python integer: decimal digits, a minus sign when negative.\<close>

fun str_nat :: "nat \<Rightarrow> string" where
  "str_nat n = (if n < 10 then [digit_char n] else str_nat (n div 10) @ [digit_char (n mod 10)])"

declare str_nat.simps [simp del]

definition py_str_int :: "int \<Rightarrow> string" where
  "py_str_int i = (if i < 0 then CHR ''-'' # str_nat (nat (- i)) else str_nat (nat i))"

text \<open>
  \<^verbatim>\<open>pad(string, padchr='0', amount=2)\<close> of calendar_utils.py, applied to
  \<^verbatim>\<open>str(string)\<close>.
\<close>

definition pad :: "string \<Rightarrow> char \<Rightarrow> nat \<Rightarrow> string" where
  "pad string padchr amount =
     (if length string < amount then replicate (amount - length string) padchr @ string
      else string)"

text \<open>\<^verbatim>\<open>sep.join(xs)\<close>.\<close>

fun join :: "string \<Rightarrow> string list \<Rightarrow> string" where
  "join sep [] = []"
| "join sep [x] = x"
| "join sep (x # y # ys) = x @ sep @ join sep (y # ys)"

definition tabs :: "nat \<Rightarrow> string" where
  "tabs n = replicate n (CHR 0x09)"

definition sq :: string where
  "sq = [CHR 0x27]"

section \<open>Dates and the month grid of Python's calendar module\<close>

record pydate =
  dyear :: int
  dmonth :: int
  dday :: int

definition isleap :: "int \<Rightarrow> bool" where
  "isleap y = (y mod 4 = 0 \<and> (y mod 100 \<noteq> 0 \<or> y mod 400 = 0))"

definition mdays :: "int \<Rightarrow> int" where
  "mdays m = (if m = 2 then 28 else if m = 4 \<or> m = 6 \<or> m = 9 \<or> m = 11 then 30 else 31)"

definition days_in_month :: "int \<Rightarrow> int \<Rightarrow> int" where
  "days_in_month y m = mdays m + (if m = 2 \<and> isleap y then 1 else 0)"

definition valid_date :: "pydate \<Rightarrow> bool" where
  "valid_date d =
     (1 \<le> dyear d \<and> dyear d \<le> 9999 \<and> 1 \<le> dmonth d \<and> dmonth d \<le> 12
      \<and> 1 \<le> dday d \<and> dday d \<le> days_in_month (dyear d) (dmonth d))"

text \<open>
  The proleptic Gregorian ordinal of \<^verbatim>\<open>datetime.date\<close> (1 for 0001-01-01) and
  \<^verbatim>\<open>date.weekday()\<close>, Monday 0 to Sunday 6.
\<close>

definition days_before_year :: "int \<Rightarrow> int" where
  "days_before_year y =
     (y - 1) * 365 + (y - 1) div 4 - (y - 1) div 100 + (y - 1) div 400"

definition days_before_month :: "int \<Rightarrow> int \<Rightarrow> int" where
  "days_before_month y m = sum_list (map (days_in_month y) [1..m - 1])"

definition toordinal :: "int \<Rightarrow> int \<Rightarrow> int \<Rightarrow> int" where
  "toordinal y m d = days_before_year y + days_before_month y m + d"

definition weekday :: "int \<Rightarrow> int \<Rightarrow> int \<Rightarrow> int" where
  "weekday y m d = (toordinal y m d + 6) mod 7"

text \<open>
  \<^verbatim>\<open>calendar.monthcalendar(year, month)\<close> of Python 2.7 with the default first
  weekday (Monday). The library walks \<^verbatim>\<open>datetime.date\<close> values from the Monday on or
  before the first of the month and stops at the first Monday after the month; a day
  outside the month is given as 0. The walk cannot pass \<^verbatim>\<open>date.max\<close>, 9999-12-31,
  a Friday: there it ends (the \<^verbatim>\<open>OverflowError\<close> of the addition is caught, since
  2.7.4), so December 9999 has no trailing zeros and its last week has five days.
  The list is then cut into slices of seven. \<^verbatim>\<open>datetime.date\<close> refuses a year
  outside 1..9999 and the calendar a month outside 1..12, both with a
  \<^verbatim>\<open>ValueError\<close>.
\<close>

definition itermonthdays :: "int \<Rightarrow> int \<Rightarrow> int list" where
  "itermonthdays y m =
     (let day1 = weekday y m 1;
          ndays = days_in_month y m;
          days_before = day1 mod 7;
          days_after = (if y = 9999 \<and> m = 12 then 0 else (0 - day1 - ndays) mod 7)
      in replicate (nat days_before) 0 @ [1..ndays] @ replicate (nat days_after) 0)"

definition weeks_of :: "int list \<Rightarrow> int list list" where
  "weeks_of days = map (\<lambda>i. take 7 (drop (7 * i) days)) [0..<(length days + 6) div 7]"

definition monthcalendar :: "int \<Rightarrow> int \<Rightarrow> exn + int list list" where
  "monthcalendar y m =
     (if y < 1 \<or> 9999 < y \<or> m < 1 \<or> 12 < m then Inl ValueError
      else Inr (weeks_of (itermonthdays y m)))"

section \<open>The stored records\<close>

text \<open>
  Modelled from the spec: the models \<^verbatim>\<open>Tbluser\<close> and \<^verbatim>\<open>TrackingEntry\<close> of
  tracker/models.py, which is not among the sources. The fields are the ones the
  handlers and the tests read and write: a user has an id, a holiday balance and the
  shift and break lengths; an entry is one day's record of one user.
\<close>

record Tbluser =
  uid :: int
  holiday_balance :: int
  shiftlength :: pytime
  breaklength :: pytime

record TrackingEntry =
  entry_id :: int
  user_id :: int
  entry_date :: pydate
  start_time :: pytime
  end_time :: pytime
  breaks :: pytime
  daytype :: string

record database =
  users :: "Tbluser list"
  entries :: "TrackingEntry list"


text \<open>A Python value passed as the \<^verbatim>\<open>user\<close> argument: the session's id, a POST string or None.\<close>

datatype pyval = PNone | PInt int | PStr string

text \<open>
  Modelled from the spec: \<^verbatim>\<open>Model.objects.get(...)\<close> of the ORM returns the one
  matching row, raises \<^verbatim>\<open>DoesNotExist\<close> when there is none and
  \<^verbatim>\<open>MultipleObjectsReturned\<close> when there are several. An id given as a string is
  converted with \<^verbatim>\<open>int\<close>.
\<close>

definition objects_get :: "('a \<Rightarrow> bool) \<Rightarrow> 'a list \<Rightarrow> exn + 'a" where
  "objects_get p rows =
     (case filter p rows of [] \<Rightarrow> Inl DoesNotExist | [r] \<Rightarrow> Inr r
      | _ \<Rightarrow> Inl MultipleObjectsReturned)"

definition Tbluser_get :: "database \<Rightarrow> pyval \<Rightarrow> exn + Tbluser" where
  "Tbluser_get db user =
     (case user of
        PNone \<Rightarrow> Inl DoesNotExist
      | PInt n \<Rightarrow> objects_get (\<lambda>u. uid u = n) (users db)
      | PStr s \<Rightarrow> (case py_int s of Inl e \<Rightarrow> Inl e
                   | Inr n \<Rightarrow> objects_get (\<lambda>u. uid u = n) (users db)))"

section \<open>The calendar renderer\<close>

text \<open>
  The table MONTH_MAP of utils/datemaps.py is not among the sources. reporting/views.py
  reads \<^verbatim>\<open>MONTH_MAP[n][1]\<close> for \<^verbatim>\<open>n\<close> in \<^verbatim>\<open>range(0, 12)\<close> as the column
  headings of a year, so its keys are 0..11 and the second component is the month's name.
\<close>

definition MONTH_MAP :: "(int \<times> string \<times> string) list" where
  "MONTH_MAP =
     [(0, ''JAN'', ''January''), (1, ''FEB'', ''February''), (2, ''MAR'', ''March''),
      (3, ''APR'', ''April''), (4, ''MAY'', ''May''), (5, ''JUN'', ''June''),
      (6, ''JUL'', ''July''), (7, ''AUG'', ''August''), (8, ''SEP'', ''September''),
      (9, ''OCT'', ''October''), (10, ''NOV'', ''November''), (11, ''DEC'', ''December'')]"

definition calendar_url :: "int \<Rightarrow> int \<Rightarrow> string" where
  \<open>calendar_url y m = ''"/calendar/'' @ py_str_int y @ ''/'' @ py_str_int m @ ''"''\<close>

text \<open>\<^verbatim>\<open>str(t)[0:5]\<close> of a time and \<^verbatim>\<open>str(d)\<close> of a date.\<close>

definition time_hhmm :: "pytime \<Rightarrow> string" where
  "time_hhmm t = pad (py_str_int (hour t)) CHR ''0'' 2 @ '':'' @ pad (py_str_int (minute t)) CHR ''0'' 2"

definition date_iso :: "pydate \<Rightarrow> string" where
  "date_iso d = pad (py_str_int (dyear d)) CHR ''0'' 4 @ ''-''
     @ pad (py_str_int (dmonth d)) CHR ''0'' 2 @ ''-'' @ pad (py_str_int (dday d)) CHR ''0'' 2"

text \<open>The three fixed pieces of the table and the heading row (lines 183 to 210).\<close>

definition table_open :: string where
  \<open>table_open = ''<table id="calendar" border="1">\<newline>'' @ tabs 3\<close>

definition heading_row :: "string \<Rightarrow> string \<Rightarrow> string \<Rightarrow> string" where
  \<open>heading_row previous_url next_url name =
     ''<tr>\<newline>                <td class="table-header" colspan="2">\<newline>                  <a class="table-links" href=''
       @ previous_url
       @ ''>&lt;</a>\<newline>                </td>\<newline>\<newline>                <td class="table-header" colspan="3">''
       @ name
       @ ''</td>\<newline>\<newline>                <td class="table-header" colspan="2">\<newline>                  <a class="table-links" href=''
       @ next_url
       @ ''>&gt;</a>\<newline>                </td>\<newline>              </tr>\<newline>''\<close>

definition day_names :: string where
  \<open>day_names =
     ''\<newline>'' @ tabs 3 @ ''<tr>\<newline>                <td class=day-names>Mon</td>\<newline>                <td class=day-names>Tue</td>\<newline>                <td class=day-names>Wed</td>\<newline>                <td class=day-names>Thu</td>\<newline>                <td class=day-names>Fri</td>\<newline>                <td class=day-names>Sat</td>\<newline>                <td class=day-names>Sun</td>\<newline>              </tr>\<newline>''\<close>

definition row_open :: string where
  \<open>row_open = ''\<newline>'' @ tabs 3 @ ''<tr>\<newline>''\<close>

definition row_close :: string where
  \<open>row_close = tabs 3 @ ''</tr>\<newline>''\<close>

definition table_close :: string where
  \<open>table_close = ''\<newline></table>''\<close>

text \<open>
  The cell of a day that has an entry (lines 235 to 256): the click handler carries the
  entry's times, date, day type, id and break, the class is \<open>day-class\<close> with the day
  type, the content is the day of the month.
\<close>

definition entry_cell :: "TrackingEntry \<Rightarrow> int \<Rightarrow> string" where
  \<open>entry_cell data mday =
     tabs 4 @ ''\<newline>                       <td onclick="toggleChangeEntries(''
       @ py_str_int (hour (start_time data))
       @ '', ''
       @ py_str_int (minute (start_time data))
       @ '', '' @ sq
       @ time_hhmm (start_time data)
       @ sq @ '',\<newline>                                                        ''
       @ py_str_int (hour (end_time data))
       @ '', ''
       @ py_str_int (minute (end_time data))
       @ '', '' @ sq
       @ time_hhmm (end_time data)
       @ sq @ '',\<newline>                                                        '' @ sq
       @ date_iso (entry_date data)
       @ sq @ '', '' @ sq
       @ daytype data
       @ sq @ '', ''
       @ py_str_int (entry_id data)
       @ '',\<newline>                                                        ''
       @ py_str_int (minute (breaks data))
       @ '', '' @ sq
       @ time_hhmm (breaks data)
       @ sq @ '')"\<newline>                           class="day-class ''
       @ daytype data
       @ ''">''
       @ py_str_int mday
       @ ''</td>\<newline>''\<close>

text \<open>The cell of a day without an entry (lines 275 to 280).\<close>

definition plain_cell :: "string \<Rightarrow> string \<Rightarrow> string \<Rightarrow> string" where
  \<open>plain_cell entry_date_string emptyclass content =
     tabs 4 @ ''<td onclick="hideEntries('' @ sq
       @ entry_date_string
       @ sq @ '')"\<newline>                    class="''
       @ emptyclass
       @ ''">''
       @ content
       @ ''</td>\<newline>''\<close>

text \<open>
  The body of the inner loop (lines 217 to 280). \<open>rows\<close> is the query set of the
  user's entries of the month; \<^verbatim>\<open>rows.get(entry_date__day=mday)\<close> raises
  \<^verbatim>\<open>DoesNotExist\<close>, which the loop catches, or \<^verbatim>\<open>MultipleObjectsReturned\<close>,
  which it does not.
\<close>

definition day_cell :: "int \<Rightarrow> int \<Rightarrow> TrackingEntry list \<Rightarrow> int \<Rightarrow> exn + string" where
  "day_cell year month rows mday =
     (let emptyclass = (if mday \<noteq> 0 then ''day-class empty-day'' else ''empty'')
      in case objects_get (\<lambda>e. dday (entry_date e) = mday) rows of
           Inr data \<Rightarrow> Inr (entry_cell data mday)
         | Inl DoesNotExist \<Rightarrow>
             Inr (plain_cell
                   (if mday \<noteq> 0
                    then join ''-'' (map (\<lambda>n. pad (py_str_int n) CHR ''0'' 2) [year, month, mday])
                    else [])
                   emptyclass
                   (if mday = 0 then ''&nbsp'' else py_str_int mday))
         | Inl e \<Rightarrow> Inl e)"

definition week_row :: "int \<Rightarrow> int \<Rightarrow> TrackingEntry list \<Rightarrow> int list \<Rightarrow> exn + string" where
  "week_row year month rows week =
     (case map_exn (day_cell year month rows) week of Inl e \<Rightarrow> Inl e
      | Inr cells \<Rightarrow> Inr (row_open @ concat cells @ row_close))"

text \<open>
  \<^verbatim>\<open>gen_calendar(year, month, day, user)\<close> called from a view or from another
  handler: the first argument is not a request, so the decorator
  \<^verbatim>\<open>calendar_wrapper\<close> calls the function as it is. \<^verbatim>\<open>int(year)\<close>,
  \<^verbatim>\<open>int(month)\<close> and \<^verbatim>\<open>int(day)\<close> leave integers unchanged.
\<close>

definition gen_calendar :: "database \<Rightarrow> int \<Rightarrow> int \<Rightarrow> int \<Rightarrow> pyval \<Rightarrow> exn + string" where
  "gen_calendar db year month day user =
     (if map_of MONTH_MAP (month - 1) = None then Inl Http404
      else
        let next_url = (if month + 1 = 13 then calendar_url (year + 1) 1
                        else calendar_url year (month + 1));
            previous_url = (if month - 1 = 0 then calendar_url (year - 1) 12
                            else calendar_url year (month - 1))
        in case Tbluser_get db user of Inl e \<Rightarrow> Inl e
           | Inr u \<Rightarrow>
        let rows = filter (\<lambda>e. user_id e = uid u \<and> dyear (entry_date e) = year
                                \<and> dmonth (entry_date e) = month) (entries db)
        in case monthcalendar year month of Inl e \<Rightarrow> Inl e
           | Inr calendar_array \<Rightarrow>
        (case map_exn (week_row year month rows) calendar_array of Inl e \<Rightarrow> Inl e
         | Inr cal_rows \<Rightarrow>
             Inr (table_open
                  @ heading_row previous_url next_url
                      (case map_of MONTH_MAP (month - 1) of Some (short, name) \<Rightarrow> name | None \<Rightarrow> [])
                  @ day_names @ concat cal_rows @ table_close)))"


subsection \<open>The grid the renderer is expected to produce\<close>















subsection \<open>A small database\<close>

text \<open>
  A user as \<^verbatim>\<open>create_users\<close> of tracker/tests.py makes them (holiday balance 20,
  shift 07:45, break 00:15) and one working day of that user.
\<close>

definition test_user :: Tbluser where
  "test_user = \<lparr>uid = 1, holiday_balance = 20,
     shiftlength = \<lparr>hour = 7, minute = 45, second = 0\<rparr>,
     breaklength = \<lparr>hour = 0, minute = 15, second = 0\<rparr>\<rparr>"

definition test_entry :: TrackingEntry where
  "test_entry = \<lparr>entry_id = 7, user_id = 1,
     entry_date = \<lparr>dyear = 2012, dmonth = 1, dday = 5\<rparr>,
     start_time = \<lparr>hour = 9, minute = 0, second = 0\<rparr>,
     end_time = \<lparr>hour = 17, minute = 0, second = 0\<rparr>,
     breaks = \<lparr>hour = 0, minute = 15, second = 0\<rparr>,
     daytype = ''WKDAY''\<rparr>"

definition test_db :: database where
  "test_db = \<lparr>users = [test_user], entries = [test_entry]\<rparr>"


section \<open>The overtime report\<close>

text \<open>
  A Python float is an IEEE double: a signed zero, a signed dyadic rational, an
  infinity or a NaN. \<open>Finite s m e\<close> stands for \<open>m * 2 ^ e\<close>, negative when \<open>s\<close> is
  set; every double is one of these values.
\<close>

datatype pyfloat = Finite bool nat int | Infinity bool | NaN

definition float_zero :: pyfloat where
  "float_zero = Finite False 0 0"

text \<open>
  \<^verbatim>\<open>a == b\<close> on floats compares the values: the two zeros are equal and a NaN is
  equal to nothing; \<^verbatim>\<open>a != b\<close> is its negation.
\<close>

definition float_eq :: "pyfloat \<Rightarrow> pyfloat \<Rightarrow> bool" where
  "float_eq a b =
     (case a of
        Finite s m e \<Rightarrow>
          (case b of
             Finite t n f \<Rightarrow>
               m * 2 ^ nat (e - min e f) = n * 2 ^ nat (f - min e f) \<and> (s = t \<or> m = 0)
           | _ \<Rightarrow> False)
      | Infinity s \<Rightarrow> (case b of Infinity t \<Rightarrow> s = t | _ \<Rightarrow> False)
      | NaN \<Rightarrow> False)"

definition float_ne :: "pyfloat \<Rightarrow> pyfloat \<Rightarrow> bool" where
  "float_ne a b = (\<not> float_eq a b)"

text \<open>
  \<^verbatim>\<open>"%.2f" % x\<close>: the value rounded to hundredths, ties to the even neighbour, with
  the sign of the float (also on a zero), the integer part, a point and two digits.
\<close>

definition round_half_even :: "nat \<Rightarrow> nat \<Rightarrow> nat" where
  "round_half_even num den =
     (let q = num div den; r = num mod den
      in if den < 2 * r \<or> (2 * r = den \<and> odd q) then q + 1 else q)"

definition hundredths :: "nat \<Rightarrow> int \<Rightarrow> nat" where
  "hundredths m e =
     (if 0 \<le> e then 100 * m * 2 ^ nat e else round_half_even (100 * m) (2 ^ nat (- e)))"

definition format_2f :: "pyfloat \<Rightarrow> string" where
  "format_2f x =
     (case x of
        Finite s m e \<Rightarrow>
          (let n = hundredths m e
           in (if s then ''-'' else []) @ str_nat (n div 100) @ ''.''
              @ pad (str_nat (n mod 100)) CHR ''0'' 2)
      | Infinity s \<Rightarrow> (if s then ''-inf'' else ''inf'')
      | NaN \<Rightarrow> ''nan'')"

text \<open>
  The per-user part of \<^verbatim>\<open>ot_by_year\<close> (reporting/views.py, lines 141 to 147): the
  row of one user is the name, the team and one cell for each month 1..12.
  \<^verbatim>\<open>user.get_total_balance(ret='flo', year=year, month=month)\<close> belongs to
  tracker/models.py, which is not among the sources; it is the parameter
  \<open>get_total_balance\<close>.
\<close>

definition ot_by_year_cell :: "pyfloat \<Rightarrow> string" where
  "ot_by_year_cell balance =
     (if float_ne balance float_zero then format_2f balance else ''-'')"

definition ot_by_year_row ::
  "string \<Rightarrow> string \<Rightarrow> ('y \<Rightarrow> int \<Rightarrow> pyfloat) \<Rightarrow> 'y \<Rightarrow> string list" where
  "ot_by_year_row name process get_total_balance year =
     [name, process] @ map (\<lambda>month. ot_by_year_cell (get_total_balance year month)) [1..12]"

text \<open>The cell of \<^verbatim>\<open>ot_by_month\<close> (line 119) and of the totals row (line 149).\<close>

definition ot_by_month_cell :: "pyfloat \<Rightarrow> string" where
  "ot_by_month_cell balance = format_2f balance"

text \<open>Balances of one user for a year: 2.5 in March, a negative zero in April, a
  small negative value in May and zero in the other months.\<close>

definition test_balance :: "int \<Rightarrow> int \<Rightarrow> pyfloat" where
  "test_balance year month =
     (if month = 3 then Finite False 5 (- 1) else if month = 4 then Finite True 0 0
      else if month = 5 then Finite True 3 (- 10) else Finite False 0 0)"


section \<open>Storing entries\<close>

text \<open>
  Modelled from the spec: the model \<^verbatim>\<open>TrackingEntry\<close> of tracker/models.py and the
  storage layer under it, which are not among the sources. The spec's data model has at
  most one entry per (user, date), enforced as a uniqueness constraint, and a duplicate
  insertion is a recoverable error: \<^verbatim>\<open>save()\<close> of a new entry raises
  \<^verbatim>\<open>IntegrityError\<close> with the code \<^verbatim>\<open>DUPLICATE_ENTRY\<close> when the user already has
  an entry on that date and stores the entry under a fresh id otherwise. The keyword
  arguments of the constructor are strings as a form sends them; a date is
  \<open>YYYY-M-D\<close>, a time \<open>H:M\<close> or \<open>H:M:S\<close>, anything else is a \<^verbatim>\<open>ValidationError\<close>,
  and a missing value violates the not-null constraint of its column (code 1048).
\<close>

definition DUPLICATE_ENTRY :: int where
  "DUPLICATE_ENTRY = 1062"

record form =
  f_user_id :: pyval
  f_entry_date :: pystr
  f_start_time :: pystr
  f_end_time :: pystr
  f_breaks :: pystr
  f_daytype :: pystr

definition short_field :: "string \<Rightarrow> bool" where
  "short_field s = (wf_field s \<and> length s \<le> 2)"

definition to_date :: "string \<Rightarrow> exn + pydate" where
  "to_date s =
     (case split_on CHR ''-'' s of
        [y, m, d] \<Rightarrow>
          (let date = \<lparr>dyear = int (digits_val y), dmonth = int (digits_val m),
                       dday = int (digits_val d)\<rparr>
           in if wf_field y \<and> length y = 4 \<and> short_field m \<and> short_field d \<and> valid_date date
              then Inr date else Inl ValidationError)
      | _ \<Rightarrow> Inl ValidationError)"

definition to_time :: "string \<Rightarrow> exn + pytime" where
  "to_time s =
     (case split_on CHR '':'' s of
        [h, m] \<Rightarrow>
          (if short_field h \<and> short_field m \<and> digits_val h < 24 \<and> digits_val m < 60
           then Inr \<lparr>hour = int (digits_val h), minute = int (digits_val m), second = 0\<rparr>
           else Inl ValidationError)
      | [h, m, sec] \<Rightarrow>
          (if short_field h \<and> short_field m \<and> short_field sec
              \<and> digits_val h < 24 \<and> digits_val m < 60 \<and> digits_val sec < 60
           then Inr \<lparr>hour = int (digits_val h), minute = int (digits_val m),
                     second = int (digits_val sec)\<rparr>
           else Inl ValidationError)
      | _ \<Rightarrow> Inl ValidationError)"

definition to_id :: "pyval \<Rightarrow> exn + int" where
  "to_id v =
     (case v of PNone \<Rightarrow> Inl (IntegrityError 1048 ''Column cannot be null'')
      | PInt n \<Rightarrow> Inr n
      | PStr s \<Rightarrow> py_int s)"

definition not_null :: "pystr \<Rightarrow> (string \<Rightarrow> exn + 'a) \<Rightarrow> exn + 'a" where
  "not_null v conv =
     (case v of None \<Rightarrow> Inl (IntegrityError 1048 ''Column cannot be null'')
      | Some s \<Rightarrow> conv s)"

text \<open>The row of \<^verbatim>\<open>TrackingEntry(**form)\<close>, not yet stored (id 0).\<close>

definition TrackingEntry_of :: "form \<Rightarrow> exn + TrackingEntry" where
  "TrackingEntry_of f =
     (case to_id (f_user_id f) of Inl e \<Rightarrow> Inl e | Inr who \<Rightarrow>
      case not_null (f_entry_date f) to_date of Inl e \<Rightarrow> Inl e | Inr d \<Rightarrow>
      case not_null (f_start_time f) to_time of Inl e \<Rightarrow> Inl e | Inr s \<Rightarrow>
      case not_null (f_end_time f) to_time of Inl e \<Rightarrow> Inl e | Inr t \<Rightarrow>
      case not_null (f_breaks f) to_time of Inl e \<Rightarrow> Inl e | Inr b \<Rightarrow>
      case not_null (f_daytype f) Inr of Inl e \<Rightarrow> Inl e | Inr k \<Rightarrow>
        Inr \<lparr>entry_id = 0, user_id = who, entry_date = d, start_time = s, end_time = t,
             breaks = b, daytype = k\<rparr>)"

definition same_day :: "TrackingEntry \<Rightarrow> TrackingEntry \<Rightarrow> bool" where
  "same_day a b = (user_id a = user_id b \<and> entry_date a = entry_date b)"

definition fresh_id :: "database \<Rightarrow> int" where
  "fresh_id db = fold max (map entry_id (entries db)) 0 + 1"

text \<open>\<^verbatim>\<open>TrackingEntry(**form).save()\<close>: the insertion of a new entry.\<close>

definition save_new :: "database \<Rightarrow> form \<Rightarrow> exn + database" where
  "save_new db f =
     (case TrackingEntry_of f of Inl e \<Rightarrow> Inl e
      | Inr entry \<Rightarrow>
          if list_ex (same_day entry) (entries db)
          then Inl (IntegrityError DUPLICATE_ENTRY ''Duplicate entry'')
          else Inr (db\<lparr>entries := entries db @ [entry\<lparr>entry_id := fresh_id db\<rparr>]\<rparr>))"




section \<open>The AJAX handlers\<close>

text \<open>
  A request: whether it is an AJAX request, the session's \<^verbatim>\<open>user_id\<close> (\<open>PNone\<close> when
  the session has none) and \<^verbatim>\<open>request.POST.get(key, None)\<close> as a function of the key.
  The answer of a handler is the dictionary that \<^verbatim>\<open>simplejson.dumps\<close> writes into
  the response: a list of keys with their values, each key once, read with \<open>map_of\<close>;
  \<open>set_item\<close> is the assignment \<^verbatim>\<open>json_data[key] = value\<close>. A handler returns the
  answer or the exception that left it, together with the stored data as it is then.
\<close>

record request =
  is_ajax :: bool
  session_user_id :: pyval
  POST :: "string \<Rightarrow> pystr"

datatype jval = JBool bool | JStr string

type_synonym json = "(string \<times> jval) list"

fun set_item :: "string \<Rightarrow> jval \<Rightarrow> json \<Rightarrow> json" where
  "set_item key v [] = [(key, v)]"
| "set_item key v ((k, w) # rest) =
     (if k = key then (key, v) # rest else (k, w) # set_item key v rest)"

definition truthy :: "pyval \<Rightarrow> bool" where
  "truthy v = (case v of PNone \<Rightarrow> False | PInt n \<Rightarrow> n \<noteq> 0 | PStr s \<Rightarrow> s \<noteq> [])"

text \<open>The decorator \<^verbatim>\<open>request_check\<close> (lines 313 to 335).\<close>

definition request_check ::
  "(database \<Rightarrow> request \<Rightarrow> (exn + json) \<times> database) \<Rightarrow> database \<Rightarrow> request
     \<Rightarrow> (exn + json) \<times> database" where
  "request_check func db request =
     (if \<not> is_ajax request then (Inl Http404, db)
      else if \<not> truthy (session_user_id request) then (Inl Http404, db)
      else func db request)"


text \<open>
  \<^verbatim>\<open>year, month, day = map(int, form['entry_date'].split("-"))\<close>.
\<close>

definition unpack3 :: "exn + int list \<Rightarrow> exn + (int \<times> int \<times> int)" where
  "unpack3 r = (case r of Inl e \<Rightarrow> Inl e
                | Inr xs \<Rightarrow> (case xs of [a, b, c] \<Rightarrow> Inr (a, b, c) | _ \<Rightarrow> Inl ValueError))"

definition split_date :: "pystr \<Rightarrow> exn + (int \<times> int \<times> int)" where
  "split_date date =
     (case date of None \<Rightarrow> Inl AttributeError
      | Some s \<Rightarrow> unpack3 (map_exn py_int (split_on CHR ''-'' s)))"

text \<open>
  The handling of an \<^verbatim>\<open>IntegrityError\<close> in \<^verbatim>\<open>ajax_add_entry\<close> (lines 373 to 378) and
  in \<^verbatim>\<open>ajax\<close> (lines 131 to 140). \<^verbatim>\<open>str(error)\<close> is the text the library gives an
  exception, the parameter \<open>str_error\<close>.
\<close>

definition integrity_answer :: "(exn \<Rightarrow> string) \<Rightarrow> json \<Rightarrow> int \<Rightarrow> string \<Rightarrow> json" where
  "integrity_answer str_error json_data code msg =
     (if code = DUPLICATE_ENTRY
      then set_item ''error'' (JStr ''There is a duplicate entry for this value'') json_data
      else set_item ''error'' (JStr (str_error (IntegrityError code msg))) json_data)"

text \<open>
  \<^verbatim>\<open>ajax_add_entry\<close> of calendar_utils.py (lines 338 to 390), under its decorators:
  \<^verbatim>\<open>json_response\<close> puts the returned dictionary into the response.
\<close>

definition add_entry_form :: "request \<Rightarrow> form" where
  "add_entry_form request =
     \<lparr>f_user_id = session_user_id request,
      f_entry_date = POST request ''entry_date'',
      f_start_time = POST request ''start_time'',
      f_end_time = POST request ''end_time'',
      f_breaks = POST request ''breaks'',
      f_daytype = POST request ''daytype''\<rparr>"

definition add_entry_body ::
  "(exn \<Rightarrow> string) \<Rightarrow> database \<Rightarrow> request \<Rightarrow> (exn + json) \<times> database" where
  "add_entry_body str_error db request =
     (let form = add_entry_form request;
          json_data = []
      in case validate_time (f_start_time form) (f_end_time form) of
           Inl ValueError \<Rightarrow> (Inr (set_item ''error'' (JStr ''Date Error'') json_data), db)
         | Inl e \<Rightarrow> (Inl e, db)
         | Inr False \<Rightarrow>
             (Inr (set_item ''error'' (JStr ''Start time after end time'') json_data), db)
         | Inr True \<Rightarrow>
             (case save_new db form of
                Inl (IntegrityError code msg) \<Rightarrow>
                  (Inr (integrity_answer str_error json_data code msg), db)
              | Inl e \<Rightarrow> (Inl e, db)
              | Inr db' \<Rightarrow>
                  (case split_date (f_entry_date form) of Inl e \<Rightarrow> (Inl e, db')
                   | Inr (year, month, day) \<Rightarrow>
                       (case gen_calendar db' year month day (f_user_id form) of
                          Inl e \<Rightarrow> (Inl e, db')
                        | Inr calendar \<Rightarrow>
                            (Inr (set_item ''calendar'' (JStr calendar)
                                   (set_item ''success'' (JBool True) json_data)), db')))))"

definition ajax_add_entry ::
  "(exn \<Rightarrow> string) \<Rightarrow> database \<Rightarrow> request \<Rightarrow> (exn + json) \<times> database" where
  "ajax_add_entry str_error = request_check (add_entry_body str_error)"

text \<open>
  \<^verbatim>\<open>ajax\<close> of timetracker/views.py (lines 67 to 146). \<open>ajax_save\<close> is the second half
  of the handler, from line 113 on: the entry is stored for user 1 with a break of a
  quarter of an hour, and the calendar is rendered for a user given by an address.
\<close>

definition ajax_form :: "request \<Rightarrow> form" where
  "ajax_form request =
     \<lparr>f_user_id = PInt 1,
      f_entry_date = POST request ''entry_date'',
      f_start_time = POST request ''start_time'',
      f_end_time = POST request ''end_time'',
      f_breaks = Some ''00:15:00'',
      f_daytype = POST request ''daytype''\<rparr>"











subsection \<open>Requests to try the handlers on\<close>


definition equal_request :: request where
  "equal_request = \<lparr>is_ajax = True, session_user_id = PInt 1,
     POST = (\<lambda>key. if key = ''entry_date'' then Some ''2012-01-06''
                    else if key = ''start_time'' then Some ''09:00''
                    else if key = ''end_time'' then Some ''09:00''
                    else if key = ''daytype'' then Some ''WKDAY''
                    else None)\<rparr>"

definition equal_entry :: TrackingEntry where
  "equal_entry = \<lparr>entry_id = 8, user_id = 1,
     entry_date = \<lparr>dyear = 2012, dmonth = 1, dday = 6\<rparr>,
     start_time = \<lparr>hour = 9, minute = 0, second = 0\<rparr>,
     end_time = \<lparr>hour = 9, minute = 0, second = 0\<rparr>,
     breaks = \<lparr>hour = 0, minute = 15, second = 0\<rparr>,
     daytype = ''WKDAY''\<rparr>"




section \<open>Properties of time validation\<close>

lemma is_digit_not_space: "is_digit c \<Longrightarrow> \<not> is_space c"
  by (auto simp: is_digit_def is_space_def)

lemma is_digit_not_sign: "is_digit c \<Longrightarrow> c \<noteq> CHR ''-'' \<and> c \<noteq> CHR ''+''"
  by (auto simp: is_digit_def)

lemma strip_digits: "wf_field s \<Longrightarrow> strip s = s"
proof -
  assume w: "wf_field s"
  then obtain c cs where s: "s = c # cs" and c: "is_digit c"
    by (cases s) (auto simp: wf_field_def)
  from w obtain ys y where r: "s = ys @ [y]" and y: "is_digit y"
    by (cases s rule: rev_cases) (auto simp: wf_field_def)
  have a: "dropWhile is_space s = s"
    using s c by (simp add: is_digit_not_space)
  have b: "dropWhile is_space (rev s) = rev s"
    unfolding r using y by (simp add: is_digit_not_space)
  show ?thesis by (simp add: strip_def a b)
qed

lemma py_int_digits: "wf_field s \<Longrightarrow> py_int s = Inr (int (digits_val s))"
proof -
  assume w: "wf_field s"
  then obtain c cs where s: "s = c # cs" and c: "is_digit c"
    by (cases s) (auto simp: wf_field_def)
  have "hd s \<noteq> CHR ''-''" "hd s \<noteq> CHR ''+''"
    using s c is_digit_not_sign by auto
  then show ?thesis
    using w by (simp add: py_int_def strip_digits Let_def wf_field_def)
qed

lemma parse_time_wf:
  assumes "split_on CHR '':'' s = [h, m]" "wf_field h" "wf_field m"
  shows "parse_time (Some s) = Inr [int (digits_val h), int (digits_val m)]"
  using assms by (simp add: parse_time_def py_int_digits)

text \<open>
  C4. For well-formed time strings \<open>start\<close> and \<open>end\<close>, \<open>validate_time\<close> returns
  (no exception) and accepts exactly when \<open>start\<close> is strictly earlier in the day than
  \<open>end\<close>; equal times and a start after the end are rejected.
\<close>

theorem validate_time_iff_strictly_before:
  assumes "wf_time start" and "wf_time end'"
  shows "validate_time (Some start) (Some end') = Inr (minutes_of start < minutes_of end')"
proof -
  from assms(1) obtain h m where s: "split_on CHR '':'' start = [h, m]"
    and sw: "wf_field h" "wf_field m" "digits_val h < 24" "digits_val m < 60"
    by (auto simp: wf_time_def split: list.splits)
  from assms(2) obtain h' m' where e: "split_on CHR '':'' end' = [h', m']"
    and ew: "wf_field h'" "wf_field m'" "digits_val h' < 24" "digits_val m' < 60"
    by (auto simp: wf_time_def split: list.splits)
  have ps: "unpack2 (parse_time (Some start)) = Inr (int (digits_val h), int (digits_val m))"
    by (simp add: unpack2_def parse_time_wf [OF s sw(1,2)])
  have pe: "unpack2 (parse_time (Some end')) = Inr (int (digits_val h'), int (digits_val m'))"
    by (simp add: unpack2_def parse_time_wf [OF e ew(1,2)])
  have ms: "minutes_of start = 60 * digits_val h + digits_val m"
    by (simp add: minutes_of_def s)
  have me: "minutes_of end' = 60 * digits_val h' + digits_val m'"
    by (simp add: minutes_of_def e)
  show ?thesis
    unfolding validate_time_def ps pe ms me
    using sw(3,4) ew(3,4) by (auto simp: datetime_time_def time_lt_def c_int_def)
qed

theorem validate_time_iff_strictly_before_witness:
  "wf_time ''09:00'' \<and> wf_time ''17:00''
   \<and> validate_time (Some ''09:00'') (Some ''17:00'') = Inr True
   \<and> validate_time (Some ''17:00'') (Some ''17:00'') = Inr False
   \<and> validate_time (Some ''17:00'') (Some ''09:00'') = Inr False"
proof -
  have a: "wf_time ''09:00''"
    by (simp add: wf_time_def wf_field_def is_digit_def digits_val_def digit_val_def)
  have b: "wf_time ''17:00''"
    by (simp add: wf_time_def wf_field_def is_digit_def digits_val_def digit_val_def)
  have m: "minutes_of ''09:00'' = 540" "minutes_of ''17:00'' = 1020"
    by (simp_all add: minutes_of_def digits_val_def digit_val_def)
  show ?thesis
    using a b validate_time_iff_strictly_before [OF a b]
      validate_time_iff_strictly_before [OF b b]
      validate_time_iff_strictly_before [OF b a]
    by (simp add: m)
qed

section \<open>Properties of the calendar renderer\<close>

lemma MONTH_MAP_None: "map_of MONTH_MAP k = None \<longleftrightarrow> k < 0 \<or> 11 < k"
  unfolding MONTH_MAP_def by (simp, presburger)

lemma MONTH_MAP_month: "map_of MONTH_MAP (month - 1) = None \<longleftrightarrow> month < 1 \<or> 12 < month"
  unfolding MONTH_MAP_None by auto

lemma map_exn_Inl: "map_exn f xs = Inl e \<Longrightarrow> \<exists>x \<in> set xs. f x = Inl e"
  by (induction xs) (auto split: sum.splits)


lemma objects_get_not_404: "objects_get p rows \<noteq> Inl Http404"
  by (auto simp: objects_get_def split: list.splits)

lemma py_int_not_404: "py_int s \<noteq> Inl Http404"
  by (auto simp: py_int_def Let_def)

lemma Tbluser_get_not_404: "Tbluser_get db user \<noteq> Inl Http404"
  by (auto simp: Tbluser_get_def objects_get_not_404 py_int_not_404 split: pyval.splits sum.splits)

lemma day_cell_not_404: "day_cell y m rows d \<noteq> Inl Http404"
  by (auto simp: day_cell_def Let_def objects_get_not_404 split: sum.splits exn.splits)

lemma week_row_not_404: "week_row y m rows w \<noteq> Inl Http404"
  by (auto simp: week_row_def day_cell_not_404 split: sum.splits dest!: map_exn_Inl)

lemma monthcalendar_not_404: "monthcalendar y m \<noteq> Inl Http404"
  by (simp add: monthcalendar_def)

text \<open>
  C6. Whatever the year, the day, the user and the stored data, \<open>gen_calendar\<close> raises
  \<open>Http404\<close> when the month is outside 1..12, and for a month in 1..12 it never
  raises \<open>Http404\<close> (it returns the table or raises another exception).
\<close>

theorem gen_calendar_month_check:
  "(month < 1 \<or> 12 < month \<longrightarrow> gen_calendar db year month day user = Inl Http404)
   \<and> (1 \<le> month \<and> month \<le> 12 \<longrightarrow> gen_calendar db year month day user \<noteq> Inl Http404)"
proof (intro conjI impI)
  assume "month < 1 \<or> 12 < month"
  then show "gen_calendar db year month day user = Inl Http404"
    by (simp add: gen_calendar_def MONTH_MAP_month)
next
  assume "1 \<le> month \<and> month \<le> 12"
  then have m: "map_of MONTH_MAP (month - 1) \<noteq> None"
    by (simp add: MONTH_MAP_month)
  show "gen_calendar db year month day user \<noteq> Inl Http404"
    using m Tbluser_get_not_404 [of db user] monthcalendar_not_404 [of year month]
    by (auto simp: gen_calendar_def Let_def week_row_not_404 split: sum.splits dest!: map_exn_Inl)
qed

theorem gen_calendar_month_check_witness:
  "gen_calendar \<lparr>users = [], entries = []\<rparr> 2012 13 1 (PInt 1) = Inl Http404
   \<and> gen_calendar \<lparr>users = [], entries = []\<rparr> 2012 0 1 (PInt 1) = Inl Http404
   \<and> gen_calendar \<lparr>users = [], entries = []\<rparr> 2012 12 1 (PInt 1) \<noteq> Inl Http404"
  using gen_calendar_month_check [of 13 "\<lparr>users = [], entries = []\<rparr>" 2012 1 "PInt 1"]
    gen_calendar_month_check [of 0 "\<lparr>users = [], entries = []\<rparr>" 2012 1 "PInt 1"]
    gen_calendar_month_check [of 12 "\<lparr>users = [], entries = []\<rparr>" 2012 1 "PInt 1"]
  by simp

subsection \<open>The month grid\<close>








lemma length_upto1: "0 \<le> n \<Longrightarrow> length [1..n] = nat n"
  by simp












subsection \<open>Cells and stored entries\<close>




























section \<open>Properties of the overtime report\<close>

lemma format_2f_not_dash: "format_2f x \<noteq> ''-''"
proof (cases x)
  case (Finite s m e)
  have "CHR ''.'' \<in> set (format_2f x)"
    unfolding Finite format_2f_def by (simp add: Let_def)
  then show ?thesis by auto
next
  case (Infinity s)
  then show ?thesis by (simp add: format_2f_def)
next
  case NaN
  then show ?thesis by (simp add: format_2f_def)
qed

lemma float_eq_zero: "float_eq x float_zero = (\<exists>s e. x = Finite s 0 e)"
  by (cases x) (auto simp add: float_eq_def float_zero_def)

lemma year_row_nth:
  assumes "1 \<le> month" "month \<le> 12"
  shows "ot_by_year_row name process g year ! nat (month + 1) = ot_by_year_cell (g year month)"
proof -
  have a: "nat (month + 1) = 2 + nat (month - 1)" using assms by simp
  have b: "nat (month - 1) < length [1..12::int]" using assms by simp
  have c: "[1..12::int] ! nat (month - 1) = month" using assms by (simp add: nth_upto)
  show ?thesis unfolding ot_by_year_row_def a using b c by (simp add: nth_append)
qed

text \<open>
  C8. In the row that \<^verbatim>\<open>ot_by_year\<close> writes for a user, the cell of every month
  1..12 (the columns after name and team) is \<open>-\<close> exactly when the balance that
  \<^verbatim>\<open>get_total_balance\<close> returned for that month equals zero, and is the balance
  formatted with \<^verbatim>\<open>%.2f\<close> otherwise; the formatted number is never \<open>-\<close>.
\<close>

theorem ot_by_year_cell_dash:
  assumes "1 \<le> month" and "month \<le> 12"
  shows "(ot_by_year_row name process get_total_balance year ! nat (month + 1) = ''-'')
           = float_eq (get_total_balance year month) float_zero
       \<and> (float_ne (get_total_balance year month) float_zero \<longrightarrow>
           ot_by_year_row name process get_total_balance year ! nat (month + 1)
             = format_2f (get_total_balance year month))"
  unfolding year_row_nth [OF assms] ot_by_year_cell_def float_ne_def
  using format_2f_not_dash [of "get_total_balance year month"] by simp

lemma format_half: "format_2f (Finite False 5 (- 1)) = ''2.50''"
  by code_simp

lemma format_tiny: "format_2f (Finite True 3 (- 10)) = ''-0.00''"
  by code_simp

theorem ot_by_year_cell_dash_witness:
  "ot_by_year_row ''test case'' ''AP'' test_balance (2012::int) ! nat (3 + 1) = ''2.50''
   \<and> ot_by_year_row ''test case'' ''AP'' test_balance (2012::int) ! nat (4 + 1) = ''-''
   \<and> ot_by_year_row ''test case'' ''AP'' test_balance (2012::int) ! nat (5 + 1) = ''-0.00''"
  using ot_by_year_cell_dash [of 3 "''test case''" "''AP''" test_balance "2012::int"]
    ot_by_year_cell_dash [of 4 "''test case''" "''AP''" test_balance "2012::int"]
    ot_by_year_cell_dash [of 5 "''test case''" "''AP''" test_balance "2012::int"]
  by (simp add: test_balance_def float_ne_def float_eq_def float_zero_def format_half format_tiny)


text \<open>The monthly report and the totals row format a zero balance as a number.\<close>

lemma ot_by_month_cell_zero: "ot_by_month_cell float_zero = ''0.00''"
  by code_simp

section \<open>Properties of the handlers\<close>




lemma save_equal_request:
  "save_new test_db (ajax_form equal_request)
     = Inr (test_db\<lparr>entries := [test_entry, equal_entry]\<rparr>)"
  by code_simp




subsection \<open>Holidays en masse\<close>











end
